theory Spec2Isabelle
  imports
    Complex_Main
    "HOL-Library.Char_ord"
    "HOL-Library.List_Lexorder"
    "HOL-Library.Product_Lexorder"
begin

section \<open>Python values used by the scoring engine\<close>

subsection \<open>Answer sets\<close>

text \<open>
  \<^verbatim>\<open>answers: Dict[str, str]\<close>. The engine itself tests \<^verbatim>\<open>answers.get(qid) is None\<close>, so a key
  may be present with the value \<^verbatim>\<open>None\<close>: a stored value is \<open>Some s\<close> (the string \<open>s\<close>) or
  \<open>None\<close> (Python's \<^verbatim>\<open>None\<close>), and the dictionary is a map from keys to stored values.
  \<open>answers q = None\<close> is an absent key, \<open>answers q = Some None\<close> a key holding \<^verbatim>\<open>None\<close>.
\<close>

type_synonym pyval = "string option"
type_synonym answers = "string \<rightharpoonup> pyval"

text \<open>\<^verbatim>\<open>answers.get(key)\<close>: the stored value, or \<^verbatim>\<open>None\<close> for an absent key.\<close>

definition dict_get :: "answers \<Rightarrow> string \<Rightarrow> pyval" where
  "dict_get answers key = (case answers key of None \<Rightarrow> None | Some v \<Rightarrow> v)"

text \<open>\<^verbatim>\<open>answers.get(key, default)\<close>: the default only replaces an absent key.\<close>

definition dict_get_default :: "answers \<Rightarrow> string \<Rightarrow> string \<Rightarrow> pyval" where
  "dict_get_default answers key dflt = (case answers key of None \<Rightarrow> Some dflt | Some v \<Rightarrow> v)"

text \<open>\<^verbatim>\<open>sep.join(xs)\<close>\<close>

fun join :: "string \<Rightarrow> string list \<Rightarrow> string" where
  "join sep [] = []"
| "join sep [x] = x"
| "join sep (x # y # ys) = x @ sep @ join sep (y # ys)"

subsection \<open>Floats\<close>

text \<open>
  A finite IEEE 754 binary64 value is a rational number; \<open>to_binary64\<close> rounds a rational to
  the nearest binary64 value (53 significant bits, ties to the even significand), which is
  what a float literal and a float multiplication do. The exponent range is not modelled:
  the engine only forms products between 0 and 52.5.
\<close>

fun bit_length :: "nat \<Rightarrow> nat" where
  "bit_length n = (if n = 0 then 0 else Suc (bit_length (n div 2)))"

declare bit_length.simps [simp del]

text \<open>Python 3 \<^verbatim>\<open>round(x)\<close> on a float: the nearest integer, a tie going to the even one.\<close>

definition round_half_even :: "rat \<Rightarrow> int" where
  "round_half_even x =
     (let f = \<lfloor>x\<rfloor>; d = x - of_int f
      in if d < 1 / 2 then f
         else if 1 / 2 < d then f + 1
         else if even f then f else f + 1)"

text \<open>\<open>floor_log2 x\<close> is the \<open>e\<close> with \<open>2 ^ e \<le> x < 2 ^ (e + 1)\<close>, for \<open>0 < x\<close>.\<close>

definition floor_log2 :: "rat \<Rightarrow> int" where
  "floor_log2 x =
     (if 1 \<le> x then int (bit_length (nat \<lfloor>x\<rfloor>)) - 1
      else - int (bit_length (nat (\<lceil>1 / x\<rceil> - 1))))"

definition pow2 :: "int \<Rightarrow> rat" where
  "pow2 e = (if 0 \<le> e then 2 ^ nat e else 1 / 2 ^ nat (- e))"

definition to_binary64 :: "rat \<Rightarrow> rat" where
  "to_binary64 x =
     (if x = 0 then 0
      else let ulp = pow2 (floor_log2 \<bar>x\<bar> - 52)
           in of_int (round_half_even (x / ulp)) * ulp)"

text \<open>\<^verbatim>\<open>n * m\<close> for an int \<open>n\<close> and a float \<open>m\<close>: \<open>n\<close> is converted, the product rounded.\<close>

definition float_mul :: "int \<Rightarrow> rat \<Rightarrow> rat" where
  "float_mul n m = to_binary64 (to_binary64 (of_int n) * m)"

section \<open>scoring.py\<close>

subsection \<open>Tables\<close>

definition grade_from_score :: "int \<Rightarrow> string" where
  "grade_from_score score =
     (if score \<ge> 85 then ''A''
      else if score \<ge> 70 then ''B''
      else if score \<ge> 55 then ''C''
      else if score \<ge> 40 then ''D''
      else ''F'')"

text \<open>The keys are Python values, since the engine looks up whatever the answer set holds.\<close>

definition DEVICE_MULTIPLIER :: "pyval \<rightharpoonup> rat" where
  "DEVICE_MULTIPLIER = map_of
     [(Some ''LT_50'', to_binary64 1),
      (Some ''R_50_200'', to_binary64 (11 / 10)),
      (Some ''R_200_500'', to_binary64 (5 / 4)),
      (Some ''R_500_1000'', to_binary64 (3 / 2))]"

definition GATE_CAPS :: "string \<rightharpoonup> int" where
  "GATE_CAPS = map_of
     [(''G1'', 40), (''G2'', 50), (''G3'', 55), (''G4'', 65), (''G5'', 70)]"

definition REQUIRED_SCORED_QIDS :: "string list" where
  "REQUIRED_SCORED_QIDS =
     [''C1_WAN_ADMIN_EXPOSURE'',
      ''C2_REMOTE_ACCESS_METHOD'',
      ''C3_ADMIN_MFA'',
      ''D1_GUEST_INTERNAL_ACCESS'',
      ''D2_VLAN_SEPARATION'',
      ''D3_IOT_WITH_FINANCE'',
      ''E1_CORP_WIFI_SECURITY'',
      ''E2_GUEST_CLIENT_ISOLATION'',
      ''F1_UNUSED_PORTS_RESTRICTED'',
      ''F2_CONFIG_BACKUPS'',
      ''F3_LOGGING_EXISTS'',
      ''F4_FIRMWARE_UPDATES'']"

subsection \<open>Result types\<close>

record GateResult =
  gate_id :: string
  failed :: bool
  cap :: int
  reasons :: "string list"

subsection \<open>Helpers\<close>

definition is_not_sure :: "pyval \<Rightarrow> bool" where
  "is_not_sure v = (v = Some ''NOT_SURE'' \<or> v = None)"

text \<open>\<^verbatim>\<open>qid not in answers or answers.get(qid) is None\<close>, over the required questions in order.\<close>

definition missing_required_scored_answers :: "answers \<Rightarrow> string list" where
  "missing_required_scored_answers answers =
     filter (\<lambda>qid. answers qid = None \<or> dict_get answers qid = None) REQUIRED_SCORED_QIDS"

subsection \<open>The sections of \<open>score_assessment\<close>\<close>

text \<open>Missing answer handling and device multiplier: the notes, in the order appended.\<close>

definition missing_notes :: "answers \<Rightarrow> string list" where
  "missing_notes answers =
     (let missing = missing_required_scored_answers answers
      in if missing \<noteq> []
         then [''Some scored questions were not answered; missing/unknown responses are treated as failing controls: ''
                 @ join '', '' missing]
         else [])"

definition device_bucket_of :: "answers \<Rightarrow> pyval" where
  "device_bucket_of answers = dict_get_default answers ''A1_DEVICE_COUNT'' ''R_50_200''"

definition multiplier_of :: "answers \<Rightarrow> rat" where
  "multiplier_of answers =
     (case DEVICE_MULTIPLIER (device_bucket_of answers) of
        None \<Rightarrow> to_binary64 (11 / 10)
      | Some m \<Rightarrow> m)"

definition device_notes :: "answers \<Rightarrow> string list" where
  "device_notes answers =
     (if device_bucket_of answers \<notin> dom DEVICE_MULTIPLIER
      then [''Unknown device bucket; default multiplier applied (1.1x).'']
      else [])"

text \<open>
  Gate evaluation: the five gates, in the order appended. The subscripts
  \<^verbatim>\<open>GATE_CAPS["G1"]\<close> to \<^verbatim>\<open>GATE_CAPS["G5"]\<close> read keys of the table, so none raises.
\<close>

definition evaluate_gates :: "answers \<Rightarrow> GateResult list" where
  "evaluate_gates answers =
     (let c1 = dict_get answers ''C1_WAN_ADMIN_EXPOSURE'';
          c2 = dict_get answers ''C2_REMOTE_ACCESS_METHOD'';
          g1_reasons =
            (if c1 \<in> {Some ''YES''} \<or> is_not_sure c1
             then [''Admin interface reachable from internet (or unknown).''] else [])
            @ (if c2 = Some ''PORT_FORWARDING''
               then [''Remote access uses port forwarding/exposed services.''] else []);
          g1_failed = (length g1_reasons > 0);
          d1 = dict_get answers ''D1_GUEST_INTERNAL_ACCESS'';
          g2_reasons =
            (if d1 = Some ''YES'' \<or> is_not_sure d1
             then [''Guest devices can access internal systems (or unknown).''] else []);
          g2_failed = (length g2_reasons > 0);
          d2 = dict_get answers ''D2_VLAN_SEPARATION'';
          g3_reasons =
            (if d2 = Some ''FLAT'' \<or> is_not_sure d2
             then [''Network is flat / not segmented (or unknown).''] else []);
          g3_failed = (length g3_reasons > 0);
          f2 = dict_get answers ''F2_CONFIG_BACKUPS'';
          g4_reasons =
            (if f2 = Some ''NONE'' \<or> is_not_sure f2
             then [''No configuration backups (or unknown).''] else []);
          g4_failed = (length g4_reasons > 0);
          f3 = dict_get answers ''F3_LOGGING_EXISTS'';
          g5_reasons =
            (if f3 = Some ''NO'' \<or> is_not_sure f3
             then [''No network/firewall logging (or unknown).''] else []);
          g5_failed = (length g5_reasons > 0)
      in [\<lparr>gate_id = ''G1'', failed = g1_failed, cap = the (GATE_CAPS ''G1''), reasons = g1_reasons\<rparr>,
          \<lparr>gate_id = ''G2'', failed = g2_failed, cap = the (GATE_CAPS ''G2''), reasons = g2_reasons\<rparr>,
          \<lparr>gate_id = ''G3'', failed = g3_failed, cap = the (GATE_CAPS ''G3''), reasons = g3_reasons\<rparr>,
          \<lparr>gate_id = ''G4'', failed = g4_failed, cap = the (GATE_CAPS ''G4''), reasons = g4_reasons\<rparr>,
          \<lparr>gate_id = ''G5'', failed = g5_failed, cap = the (GATE_CAPS ''G5''), reasons = g5_reasons\<rparr>])"

text \<open>\<^verbatim>\<open>cap = 100; for g in gates: if g.failed: cap = min(cap, g.cap)\<close>\<close>

fun determine_cap :: "int \<Rightarrow> GateResult list \<Rightarrow> int" where
  "determine_cap c [] = c"
| "determine_cap c (g # gs) = determine_cap (if failed g then min c (cap g) else c) gs"

text \<open>
  Each deduction section takes the list of failed controls accumulated so far and returns
  its deduction with the extended list.
\<close>

definition perimeter_section :: "answers \<Rightarrow> string list \<Rightarrow> int \<times> string list" where
  "perimeter_section answers failed_controls =
     (let c1 = dict_get answers ''C1_WAN_ADMIN_EXPOSURE'';
          c2 = dict_get answers ''C2_REMOTE_ACCESS_METHOD'';
          perimeter_ded = 0;
          (perimeter_ded, failed_controls) =
            (if c1 = Some ''YES'' \<or> is_not_sure c1
             then (perimeter_ded + 25, failed_controls @ [''CTRL_PERIMETER_WAN_ADMIN_EXPOSURE''])
             else (perimeter_ded, failed_controls));
          (perimeter_ded, failed_controls) =
            (if c2 = Some ''PORT_FORWARDING''
             then (perimeter_ded + 25, failed_controls @ [''CTRL_PERIMETER_PORT_FORWARDING''])
             else (perimeter_ded, failed_controls));
          c3 = dict_get answers ''C3_ADMIN_MFA'';
          (perimeter_ded, failed_controls) =
            (if c3 = Some ''NO'' \<or> is_not_sure c3
             then (perimeter_ded + 10, failed_controls @ [''CTRL_IDENTITY_ADMIN_MFA''])
             else (perimeter_ded, failed_controls))
      in (perimeter_ded, failed_controls))"

definition segmentation_section :: "answers \<Rightarrow> string list \<Rightarrow> int \<times> string list" where
  "segmentation_section answers failed_controls =
     (let d1 = dict_get answers ''D1_GUEST_INTERNAL_ACCESS'';
          d2 = dict_get answers ''D2_VLAN_SEPARATION'';
          segmentation_ded = 0;
          (segmentation_ded, failed_controls) =
            (if d2 = Some ''FLAT'' \<or> is_not_sure d2
             then (segmentation_ded + 25, failed_controls @ [''CTRL_SEGMENTATION_FLAT_NETWORK''])
             else if d2 = Some ''PARTIAL''
             then (segmentation_ded + 10, failed_controls @ [''CTRL_SEGMENTATION_PARTIAL''])
             else (segmentation_ded, failed_controls));
          failed_controls =
            (if d1 = Some ''YES'' \<or> is_not_sure d1
             then failed_controls @ [''CTRL_SEGMENTATION_GUEST_NOT_ISOLATED'']
             else failed_controls);
          d3 = dict_get answers ''D3_IOT_WITH_FINANCE'';
          (segmentation_ded, failed_controls) =
            (if d3 = Some ''YES''
             then (segmentation_ded + 10, failed_controls @ [''CTRL_SEGMENTATION_IOT_WITH_CRITICAL''])
             else (segmentation_ded, failed_controls))
      in (segmentation_ded, failed_controls))"

definition wireless_section :: "answers \<Rightarrow> string list \<Rightarrow> int \<times> string list" where
  "wireless_section answers failed_controls =
     (let wireless_ded = 0;
          e1 = dict_get answers ''E1_CORP_WIFI_SECURITY'';
          (wireless_ded, failed_controls) =
            (if e1 = Some ''OPEN_OR_UNKNOWN'' \<or> is_not_sure e1
             then (wireless_ded + 15, failed_controls @ [''CTRL_WIRELESS_OPEN_OR_UNKNOWN''])
             else if e1 = Some ''PSK''
             then (wireless_ded + 7, failed_controls @ [''CTRL_WIRELESS_PSK_ONLY''])
             else (wireless_ded, failed_controls));
          e2 = dict_get answers ''E2_GUEST_CLIENT_ISOLATION'';
          (wireless_ded, failed_controls) =
            (if e2 = Some ''NO'' \<or> is_not_sure e2
             then (wireless_ded + 8, failed_controls @ [''CTRL_WIRELESS_GUEST_CLIENT_ISOLATION''])
             else (wireless_ded, failed_controls))
      in (wireless_ded, failed_controls))"

definition hygiene_section :: "answers \<Rightarrow> string list \<Rightarrow> int \<times> string list" where
  "hygiene_section answers failed_controls =
     (let f2 = dict_get answers ''F2_CONFIG_BACKUPS'';
          f3 = dict_get answers ''F3_LOGGING_EXISTS'';
          hygiene_ded = 0;
          f1 = dict_get answers ''F1_UNUSED_PORTS_RESTRICTED'';
          (hygiene_ded, failed_controls) =
            (if f1 = Some ''NO'' \<or> is_not_sure f1
             then (hygiene_ded + 7, failed_controls @ [''CTRL_HYGIENE_UNUSED_PORTS''])
             else (hygiene_ded, failed_controls));
          (hygiene_ded, failed_controls) =
            (if f2 = Some ''NONE'' \<or> is_not_sure f2
             then (hygiene_ded + 15, failed_controls @ [''CTRL_OPERATIONS_NO_BACKUPS''])
             else (hygiene_ded, failed_controls));
          (hygiene_ded, failed_controls) =
            (if f3 = Some ''NO'' \<or> is_not_sure f3
             then (hygiene_ded + 15, failed_controls @ [''CTRL_OPERATIONS_NO_LOGGING''])
             else (hygiene_ded, failed_controls));
          f4 = dict_get answers ''F4_FIRMWARE_UPDATES'';
          (hygiene_ded, failed_controls) =
            (if f4 = Some ''RARE'' \<or> is_not_sure f4
             then (hygiene_ded + 7, failed_controls @ [''CTRL_OPERATIONS_FIRMWARE_RARE''])
             else (hygiene_ded, failed_controls))
      in (hygiene_ded, failed_controls))"

text \<open>Deduplication of the failed controls, preserving the order of first occurrence.\<close>

fun dedup_controls :: "string list \<Rightarrow> string set \<Rightarrow> string list \<Rightarrow> string list" where
  "dedup_controls [] seen failed_controls_dedup = failed_controls_dedup"
| "dedup_controls (cid # rest) seen failed_controls_dedup =
     (if cid \<notin> seen
      then dedup_controls rest (insert cid seen) (failed_controls_dedup @ [cid])
      else dedup_controls rest seen failed_controls_dedup)"

subsection \<open>\<open>score_assessment\<close>\<close>

text \<open>
  \<open>deductions\<close> is the dictionary literal of the source, as the list of its items in
  insertion order; \<open>device_multiplier\<close> is the float, as the rational it denotes. In
  \<open>score_assessment\<close> a local variable that shares its name with a field carries a prime.
\<close>

record ScoreBreakdown =
  raw_score :: int
  cap_applied :: int
  final_score :: int
  grade :: string
  device_multiplier :: rat
  gates :: "GateResult list"
  deductions :: "(string \<times> int) list"
  failed_controls :: "string list"
  "notes" :: "string list"

definition score_assessment :: "answers \<Rightarrow> ScoreBreakdown" where
  "score_assessment answers =
     (let notes' = [];
          failed_controls' = [];
          notes' = notes' @ missing_notes answers;
          multiplier = multiplier_of answers;
          notes' = notes' @ device_notes answers;
          gates' = evaluate_gates answers;
          cap' = determine_cap 100 gates';
          (perimeter_ded, failed_controls') = perimeter_section answers failed_controls';
          (segmentation_ded, failed_controls') = segmentation_section answers failed_controls';
          (wireless_ded, failed_controls') = wireless_section answers failed_controls';
          (hygiene_ded, failed_controls') = hygiene_section answers failed_controls';
          segmentation_scaled = round_half_even (float_mul segmentation_ded multiplier);
          multiplied_total = segmentation_scaled + wireless_ded + hygiene_ded;
          total_deductions = perimeter_ded + multiplied_total;
          raw_score' = 100 - total_deductions;
          raw_score' = (if raw_score' < 0 then 0 else raw_score');
          raw_score' = (if raw_score' > 100 then 100 else raw_score');
          final_score' = min raw_score' cap';
          grade' = grade_from_score final_score';
          failed_controls_dedup = dedup_controls failed_controls' {} []
      in \<lparr>raw_score = raw_score',
          cap_applied = cap',
          final_score = final_score',
          grade = grade',
          device_multiplier = multiplier,
          gates = gates',
          deductions =
            [(''perimeter'', perimeter_ded),
             (''segmentation'', segmentation_ded),
             (''segmentation_scaled'', segmentation_scaled),
             (''wireless'', wireless_ded),
             (''hygiene'', hygiene_ded),
             (''multiplied_total'', multiplied_total),
             (''total'', total_deductions)],
          failed_controls = failed_controls_dedup,
          notes = notes'\<rparr>)"

section \<open>policy_intent.py\<close>

subsection \<open>Fix blocks\<close>

record FixBlock =
  severity :: string
  gate :: "string option"
  control_id :: string
  title :: string
  finding :: string
  policy_intent :: string
  technical_rationale :: string
  references :: "string list"

definition REF_CIS_IG1 :: string where
  "REF_CIS_IG1 = ''CIS Controls (IG1)''"

definition REF_NIST_SMB :: string where
  "REF_NIST_SMB = ''NIST SMB Baseline''"

definition REF_VENDOR :: string where
  "REF_VENDOR = ''Vendor Best Practice''"

text \<open>The dictionary literal, as the list of its items, and the dictionary it denotes.\<close>

definition CONTROL_FIX_LIBRARY_items :: "(string \<times> FixBlock) list" where
  "CONTROL_FIX_LIBRARY_items =
     [(''CTRL_PERIMETER_WAN_ADMIN_EXPOSURE'',
       \<lparr>severity = ''critical'',
        gate = Some ''G1'',
        control_id = ''CTRL_PERIMETER_WAN_ADMIN_EXPOSURE'',
        title = ''Restrict public access to management interfaces'',
        finding = ''Administrative login interfaces for network equipment are reachable from the public internet (or this is unknown).'',
        policy_intent = ''Administrative access to network infrastructure should be reachable only from trusted internal networks or through a secure VPN. Public (WAN) management access should be disabled.'',
        technical_rationale = ''Publicly exposed management interfaces significantly increase the likelihood of unauthorized access through credential attacks or software vulnerabilities.'',
        references = [REF_CIS_IG1, REF_NIST_SMB, REF_VENDOR]\<rparr>),
      (''CTRL_PERIMETER_PORT_FORWARDING'',
       \<lparr>severity = ''critical'',
        gate = Some ''G1'',
        control_id = ''CTRL_PERIMETER_PORT_FORWARDING'',
        title = ''Remove direct internet exposure of internal services'',
        finding = ''Remote access to internal systems is provided via port forwarding / exposed services.'',
        policy_intent = ''Remove direct internet exposure of internal services. Provide remote access using a client-to-site VPN with strong authentication. Prefer cloud/SaaS access where possible.'',
        technical_rationale = ''Direct exposure of internal services removes a key security boundary and is a common entry point for compromise in SMB environments.'',
        references = [REF_CIS_IG1, REF_NIST_SMB, REF_VENDOR]\<rparr>),
      (''CTRL_IDENTITY_ADMIN_MFA'',
       \<lparr>severity = ''high'',
        gate = Some ''G1'',
        control_id = ''CTRL_IDENTITY_ADMIN_MFA'',
        title = ''Enforce MFA for administrative access'',
        finding = ''Multi-factor authentication (MFA) is not enforced for network administrative access (or this is unknown).'',
        policy_intent = ''Require MFA for all administrative access to firewalls, switches, Wi-Fi controllers, and management portals. Use app-based TOTP or hardware-backed methods where supported.'',
        technical_rationale = ''MFA reduces the impact of password compromise and significantly improves the security of privileged access.'',
        references = [REF_CIS_IG1, REF_NIST_SMB, REF_VENDOR]\<rparr>),
      (''CTRL_SEGMENTATION_GUEST_NOT_ISOLATED'',
       \<lparr>severity = ''critical'',
        gate = Some ''G2'',
        control_id = ''CTRL_SEGMENTATION_GUEST_NOT_ISOLATED'',
        title = ''Isolate guest access from internal systems'',
        finding = ''Guest/untrusted devices can access internal systems (or this is unknown).'',
        policy_intent = ''Place guest access on a dedicated network segment and enforce default-deny rules from guest to internal networks. Allow only necessary services (e.g., DHCP/DNS) and internet-bound traffic.'',
        technical_rationale = ''Guest devices should be treated as untrusted. Isolation reduces risk and limits visibility of internal assets.'',
        references = [REF_CIS_IG1, REF_NIST_SMB, REF_VENDOR]\<rparr>),
      (''CTRL_SEGMENTATION_FLAT_NETWORK'',
       \<lparr>severity = ''critical'',
        gate = Some ''G3'',
        control_id = ''CTRL_SEGMENTATION_FLAT_NETWORK'',
        title = ''Implement basic network segmentation'',
        finding = ''The network is flat (no meaningful segmentation), or segmentation status is unknown.'',
        policy_intent = ''Implement at least basic segmentation suitable for SMBs (e.g., Staff, Guest, IoT, and optionally Management). Enforce inter-segment access rules via firewall/L3 controls using least privilege.'',
        technical_rationale = ''Segmentation limits lateral movement and reduces blast radius when endpoints are compromised.'',
        references = [REF_CIS_IG1, REF_NIST_SMB, REF_VENDOR]\<rparr>),
      (''CTRL_SEGMENTATION_PARTIAL'',
       \<lparr>severity = ''high'',
        gate = Some ''G3'',
        control_id = ''CTRL_SEGMENTATION_PARTIAL'',
        title = ''Strengthen segmentation boundaries'',
        finding = ''Segmentation exists but is partial (not all groups are separated).'',
        policy_intent = ''Complete separation for at least Staff, Guest, and IoT. Ensure inter-segment policies are explicit and follow least privilege.'',
        technical_rationale = ''Partial segmentation can still allow unnecessary lateral movement. Clear boundaries reduce risk and simplify policy control.'',
        references = [REF_CIS_IG1, REF_NIST_SMB, REF_VENDOR]\<rparr>),
      (''CTRL_SEGMENTATION_IOT_WITH_CRITICAL'',
       \<lparr>severity = ''high'',
        gate = None,
        control_id = ''CTRL_SEGMENTATION_IOT_WITH_CRITICAL'',
        title = ''Contain IoT/unmanaged devices'',
        finding = ''IoT/unmanaged devices share the same network as business-critical systems.'',
        policy_intent = ''Move IoT/unmanaged devices to a restricted segment and allow only explicitly required communication to necessary internal services.'',
        technical_rationale = ''IoT devices often have weaker security controls and may not be patched regularly; containment reduces exposure to critical systems.'',
        references = [REF_CIS_IG1, REF_NIST_SMB, REF_VENDOR]\<rparr>),
      (''CTRL_WIRELESS_OPEN_OR_UNKNOWN'',
       \<lparr>severity = ''high'',
        gate = None,
        control_id = ''CTRL_WIRELESS_OPEN_OR_UNKNOWN'',
        title = ''Use modern Wi-Fi security'',
        finding = ''Corporate Wi-Fi security is open/unknown.'',
        policy_intent = ''Use WPA2/WPA3 with a strong configuration. For business devices, consider WPA2/WPA3-Enterprise (802.1X) where feasible. Ensure guest access is separate from corporate access.'',
        technical_rationale = ''Open or unknown Wi-Fi security materially increases the risk of unauthorized network access.'',
        references = [REF_CIS_IG1, REF_NIST_SMB, REF_VENDOR]\<rparr>),
      (''CTRL_WIRELESS_PSK_ONLY'',
       \<lparr>severity = ''medium'',
        gate = None,
        control_id = ''CTRL_WIRELESS_PSK_ONLY'',
        title = ''Harden Wi-Fi authentication and separation'',
        finding = ''Corporate Wi-Fi uses a shared password (PSK).'',
        policy_intent = ''Maintain strong PSK hygiene (rotation, unique per-site) and ensure separation between corporate and guest access. Where feasible, adopt 802.1X (Enterprise) for managed corporate devices.'',
        technical_rationale = ''Shared passwords are harder to manage and revoke. Strong separation and tighter identity controls reduce risk.'',
        references = [REF_CIS_IG1, REF_NIST_SMB, REF_VENDOR]\<rparr>),
      (''CTRL_WIRELESS_GUEST_CLIENT_ISOLATION'',
       \<lparr>severity = ''medium'',
        gate = None,
        control_id = ''CTRL_WIRELESS_GUEST_CLIENT_ISOLATION'',
        title = ''Enable guest client isolation'',
        finding = ''Guest Wi-Fi client isolation is disabled or unknown.'',
        policy_intent = ''Enable guest client isolation to prevent guest devices from communicating directly with each other. Combine this with network-level guest isolation from internal systems.'',
        technical_rationale = ''Client isolation reduces opportunistic peer-to-peer attacks and limits lateral spread on guest networks.'',
        references = [REF_CIS_IG1, REF_NIST_SMB, REF_VENDOR]\<rparr>),
      (''CTRL_HYGIENE_UNUSED_PORTS'',
       \<lparr>severity = ''medium'',
        gate = None,
        control_id = ''CTRL_HYGIENE_UNUSED_PORTS'',
        title = ''Restrict unused network ports'',
        finding = ''Unused switch ports or wall jacks are not disabled/restricted (or this is unknown).'',
        policy_intent = ''Disable unused switch ports or restrict them to a safe, non-production configuration. Document and review active ports periodically.'',
        technical_rationale = ''Open unused ports increase risk of unauthorized physical access and rogue devices joining the network.'',
        references = [REF_CIS_IG1, REF_NIST_SMB, REF_VENDOR]\<rparr>),
      (''CTRL_OPERATIONS_NO_BACKUPS'',
       \<lparr>severity = ''high'',
        gate = Some ''G4'',
        control_id = ''CTRL_OPERATIONS_NO_BACKUPS'',
        title = ''Establish configuration backups'',
        finding = ''No recent configuration backups are available (or this is unknown).'',
        policy_intent = ''Maintain backups of firewall/router/switch/Wi-Fi configurations. Store backups securely off-device and test restore procedures periodically.'',
        technical_rationale = ''Backups reduce downtime and enable fast recovery after device failure or misconfiguration.'',
        references = [REF_CIS_IG1, REF_NIST_SMB, REF_VENDOR]\<rparr>),
      (''CTRL_OPERATIONS_NO_LOGGING'',
       \<lparr>severity = ''high'',
        gate = Some ''G5'',
        control_id = ''CTRL_OPERATIONS_NO_LOGGING'',
        title = ''Enable basic logging and retention'',
        finding = ''Network/firewall logs are not stored anywhere (or this is unknown).'',
        policy_intent = ''Enable firewall/network logging and store logs locally or centrally with reasonable retention. Ensure logs cover authentication events, configuration changes, and security-relevant traffic.'',
        technical_rationale = ''Without logs, troubleshooting and incident response are severely limited, and security events may go undetected.'',
        references = [REF_CIS_IG1, REF_NIST_SMB, REF_VENDOR]\<rparr>),
      (''CTRL_OPERATIONS_FIRMWARE_RARE'',
       \<lparr>severity = ''medium'',
        gate = None,
        control_id = ''CTRL_OPERATIONS_FIRMWARE_RARE'',
        title = ''Adopt a regular update cadence'',
        finding = ''Network device firmware/software is rarely updated (or update cadence is unknown).'',
        policy_intent = ''Adopt a regular update process appropriate for SMBs (e.g., quarterly review with urgent security updates applied sooner). Track versions and changes.'',
        technical_rationale = ''Regular updates reduce exposure to known vulnerabilities and improve stability over time.'',
        references = [REF_CIS_IG1, REF_NIST_SMB, REF_VENDOR]\<rparr>)]"

definition CONTROL_FIX_LIBRARY :: "string \<rightharpoonup> FixBlock" where
  "CONTROL_FIX_LIBRARY = map_of CONTROL_FIX_LIBRARY_items"

subsection \<open>Gate summaries\<close>

text \<open>An entry of \<^verbatim>\<open>GATE_EXEC_SUMMARIES\<close>: a dictionary with the keys \<^verbatim>\<open>title\<close> and \<^verbatim>\<open>summary\<close>.\<close>

record GateMeta =
  meta_title :: string
  meta_summary :: string

definition GATE_EXEC_SUMMARIES :: "string \<rightharpoonup> GateMeta" where
  "GATE_EXEC_SUMMARIES = map_of
     [(''G1'',
       \<lparr>meta_title = ''Perimeter Exposure'',
        meta_summary = ''Public exposure of administrative interfaces or internal services materially increases compromise risk.''\<rparr>),
      (''G2'',
       \<lparr>meta_title = ''Guest Isolation'',
        meta_summary = ''Guest or untrusted devices should not have access to internal systems.''\<rparr>),
      (''G3'',
       \<lparr>meta_title = ''Segmentation'',
        meta_summary = ''Basic segmentation is required to limit lateral movement and reduce blast radius.''\<rparr>),
      (''G4'',
       \<lparr>meta_title = ''Configuration Backups'',
        meta_summary = ''Backups are necessary for recovery and operational resilience.''\<rparr>),
      (''G5'',
       \<lparr>meta_title = ''Logging & Visibility'',
        meta_summary = ''Logging is necessary for troubleshooting and incident detection.''\<rparr>)]"

text \<open>
  An item of \<^verbatim>\<open>gate_summaries\<close>: a dictionary with the keys \<^verbatim>\<open>gate_id\<close>, \<^verbatim>\<open>title\<close>,
  \<^verbatim>\<open>summary\<close>, \<^verbatim>\<open>cap\<close> and \<^verbatim>\<open>reasons\<close>.
\<close>

record GateSummary =
  summary_gate_id :: string
  summary_title :: string
  summary_text :: string
  summary_cap :: int
  summary_reasons :: "string list"

text \<open>
  The first loop of \<open>generate_fix_blocks\<close>. The gates are the dictionaries that
  \<^verbatim>\<open>score_assessment_dict\<close> makes of the gate results, so each has the four keys; a gate
  whose identifier is empty is skipped (\<^verbatim>\<open>if not gid: continue\<close>).
\<close>

fun summarise_gates :: "GateResult list \<Rightarrow> GateSummary list \<Rightarrow> GateSummary list" where
  "summarise_gates [] gate_summaries = gate_summaries"
| "summarise_gates (g # gs) gate_summaries =
     (let gid = gate_id g
      in if gid = [] then summarise_gates gs gate_summaries
         else let meta = (case GATE_EXEC_SUMMARIES gid of
                            None \<Rightarrow> \<lparr>meta_title = gid, meta_summary = []\<rparr>
                          | Some m \<Rightarrow> m)
              in if failed g
                 then summarise_gates gs
                        (gate_summaries @
                           [\<lparr>summary_gate_id = gid,
                             summary_title = meta_title meta,
                             summary_text = meta_summary meta,
                             summary_cap = cap g,
                             summary_reasons = reasons g\<rparr>])
                 else summarise_gates gs gate_summaries)"

subsection \<open>Selecting, sorting and splitting the blocks\<close>

text \<open>
  The second loop: \<open>seen\<close> records every identifier met, known to the library or not; a
  \<^verbatim>\<open>FixBlock\<close> instance is always true, so \<^verbatim>\<open>if b\<close> tests that the lookup found one.
\<close>

fun build_blocks :: "string list \<Rightarrow> string set \<Rightarrow> FixBlock list \<Rightarrow> FixBlock list" where
  "build_blocks [] seen blocks = blocks"
| "build_blocks (cid # rest) seen blocks =
     (if cid \<in> seen then build_blocks rest seen blocks
      else (case CONTROL_FIX_LIBRARY cid of
              None \<Rightarrow> build_blocks rest (insert cid seen) blocks
            | Some b \<Rightarrow> build_blocks rest (insert cid seen) (blocks @ [b])))"

text \<open>
  The local function \<^verbatim>\<open>sort_key\<close>. Python compares the tuples lexicographically and the
  strings by code point, as the orders on pairs and on character lists do here.
\<close>

definition block_sort_key :: "FixBlock \<Rightarrow> nat \<times> nat \<times> string" where
  "block_sort_key b =
     (let gate_rank =
            (if gate b \<in> {Some ''G1'', Some ''G2'', Some ''G3'', Some ''G4'', Some ''G5''}
             then 0 else 1);
          severity_rank =
            (case map_of [(''critical'', 0), (''high'', 1), (''medium'', 2)] (severity b) of
               None \<Rightarrow> 3
             | Some r \<Rightarrow> r)
      in (severity_rank, gate_rank, control_id b))"

text \<open>The last loop; \<^verbatim>\<open>asdict(b)\<close> has the fields of \<open>b\<close>, so the payload is \<open>b\<close> itself.\<close>

fun split_fixes ::
  "FixBlock list \<Rightarrow> FixBlock list \<Rightarrow> FixBlock list \<Rightarrow> FixBlock list \<times> FixBlock list" where
  "split_fixes [] critical_fixes recommended_fixes = (critical_fixes, recommended_fixes)"
| "split_fixes (b # bs) critical_fixes recommended_fixes =
     (if severity b \<in> {''critical'', ''high''}
      then split_fixes bs (critical_fixes @ [b]) recommended_fixes
      else split_fixes bs critical_fixes (recommended_fixes @ [b]))"

subsection \<open>\<open>generate_fix_blocks\<close>\<close>

record RemediationOutput =
  gate_summaries :: "GateSummary list"
  critical_fixes :: "FixBlock list"
  recommended_fixes :: "FixBlock list"

text \<open>\<^verbatim>\<open>sorted\<close> is stable, as the insertion sort \<open>sort_key\<close> of the list library is.\<close>

definition generate_fix_blocks :: "string list \<Rightarrow> GateResult list \<Rightarrow> RemediationOutput" where
  "generate_fix_blocks controls gate_list =
     (let summaries = summarise_gates gate_list [];
          blocks = build_blocks controls {} [];
          blocks_sorted = sort_key block_sort_key blocks;
          (critical, recommended) = split_fixes blocks_sorted [] []
      in \<lparr>gate_summaries = summaries,
          critical_fixes = critical,
          recommended_fixes = recommended\<rparr>)"

section \<open>Inputs and tables named in the statements\<close>

text \<open>The all-failing answer set of \<^verbatim>\<open>run_local_test.py\<close>.\<close>

definition scenario_A :: answers where
  "scenario_A =
     [''C1_WAN_ADMIN_EXPOSURE'' \<mapsto> Some ''YES'',
      ''C2_REMOTE_ACCESS_METHOD'' \<mapsto> Some ''PORT_FORWARDING'',
      ''C3_ADMIN_MFA'' \<mapsto> Some ''NO'',
      ''D1_GUEST_INTERNAL_ACCESS'' \<mapsto> Some ''YES'',
      ''D2_VLAN_SEPARATION'' \<mapsto> Some ''FLAT'',
      ''D3_IOT_WITH_FINANCE'' \<mapsto> Some ''YES'',
      ''E1_CORP_WIFI_SECURITY'' \<mapsto> Some ''OPEN_OR_UNKNOWN'',
      ''E2_GUEST_CLIENT_ISOLATION'' \<mapsto> Some ''NO'',
      ''F1_UNUSED_PORTS_RESTRICTED'' \<mapsto> Some ''NO'',
      ''F2_CONFIG_BACKUPS'' \<mapsto> Some ''NONE'',
      ''F3_LOGGING_EXISTS'' \<mapsto> Some ''NO'',
      ''F4_FIRMWARE_UPDATES'' \<mapsto> Some ''RARE'',
      ''A1_DEVICE_COUNT'' \<mapsto> Some ''R_200_500'']"

text \<open>A segmented network without IoT devices beside critical systems; nothing else answered.\<close>

definition scenario_segmented :: answers where
  "scenario_segmented =
     [''D2_VLAN_SEPARATION'' \<mapsto> Some ''FULL'',
      ''D3_IOT_WITH_FINANCE'' \<mapsto> Some ''NO'']"

text \<open>The empty answer set.\<close>

definition no_answers :: answers where
  "no_answers = Map.empty"


text \<open>
  The elements of a list in the order of their first occurrence, each once: what the loops
  with a \<^verbatim>\<open>seen\<close> set keep.
\<close>

fun first_occurrences :: "'a list \<Rightarrow> 'a list" where
  "first_occurrences [] = []"
| "first_occurrences (x # xs) = x # first_occurrences (filter (\<lambda>y. y \<noteq> x) xs)"

section \<open>Properties of the scoring engine\<close>

subsection \<open>The multipliers and the scaled segmentation deductions\<close>

lemma binary64_literals:
  "to_binary64 1 = 1"
  "to_binary64 (11 / 10) = 2476979795053773 / 2251799813685248"
  "to_binary64 (5 / 4) = 5 / 4"
  "to_binary64 (3 / 2) = 3 / 2"
  by code_simp+

lemma scaled_by_1:
  "round_half_even (float_mul 0 1) = 0"
  "round_half_even (float_mul 10 1) = 10"
  "round_half_even (float_mul 20 1) = 20"
  "round_half_even (float_mul 25 1) = 25"
  "round_half_even (float_mul 35 1) = 35"
  by code_simp+

lemma scaled_by_1_1:
  "round_half_even (float_mul 0 (2476979795053773 / 2251799813685248)) = 0"
  "round_half_even (float_mul 10 (2476979795053773 / 2251799813685248)) = 11"
  "round_half_even (float_mul 20 (2476979795053773 / 2251799813685248)) = 22"
  "round_half_even (float_mul 25 (2476979795053773 / 2251799813685248)) = 28"
  "round_half_even (float_mul 35 (2476979795053773 / 2251799813685248)) = 38"
  by code_simp+

lemma scaled_by_1_25:
  "round_half_even (float_mul 0 (5 / 4)) = 0"
  "round_half_even (float_mul 10 (5 / 4)) = 12"
  "round_half_even (float_mul 20 (5 / 4)) = 25"
  "round_half_even (float_mul 25 (5 / 4)) = 31"
  "round_half_even (float_mul 35 (5 / 4)) = 44"
  by code_simp+

lemma scaled_by_1_5:
  "round_half_even (float_mul 0 (3 / 2)) = 0"
  "round_half_even (float_mul 10 (3 / 2)) = 15"
  "round_half_even (float_mul 20 (3 / 2)) = 30"
  "round_half_even (float_mul 25 (3 / 2)) = 38"
  "round_half_even (float_mul 35 (3 / 2)) = 52"
  by code_simp+


lemmas scaled_table = scaled_by_1 scaled_by_1_1 scaled_by_1_25 scaled_by_1_5

subsection \<open>The fields of the result\<close>

lemma gates_score: "gates (score_assessment a) = evaluate_gates a"
  by (simp add: score_assessment_def Let_def case_prod_beta)

lemma cap_applied_score: "cap_applied (score_assessment a) = determine_cap 100 (evaluate_gates a)"
  by (simp add: score_assessment_def Let_def case_prod_beta)

lemma final_score_score:
  "final_score (score_assessment a) = min (raw_score (score_assessment a)) (cap_applied (score_assessment a))"
  by (simp add: score_assessment_def Let_def case_prod_beta)

lemma raw_score_bounds: "0 \<le> raw_score (score_assessment a) \<and> raw_score (score_assessment a) \<le> 100"
  by (simp add: score_assessment_def Let_def case_prod_beta)

lemma notes_score: "notes (score_assessment a) = missing_notes a @ device_notes a"
  by (simp add: score_assessment_def Let_def case_prod_beta)

lemma device_multiplier_score: "device_multiplier (score_assessment a) = multiplier_of a"
  by (simp add: score_assessment_def Let_def case_prod_beta)

lemma perimeter_section_acc:
  "perimeter_section a fc = (fst (perimeter_section a []), fc @ snd (perimeter_section a []))"
  by (simp add: perimeter_section_def Let_def)

lemma segmentation_section_acc:
  "segmentation_section a fc = (fst (segmentation_section a []), fc @ snd (segmentation_section a []))"
  by (simp add: segmentation_section_def Let_def)

lemma wireless_section_acc:
  "wireless_section a fc = (fst (wireless_section a []), fc @ snd (wireless_section a []))"
  by (simp add: wireless_section_def Let_def)

lemma hygiene_section_acc:
  "hygiene_section a fc = (fst (hygiene_section a []), fc @ snd (hygiene_section a []))"
  by (simp add: hygiene_section_def Let_def)

lemma section_fst:
  "fst (segmentation_section a (snd p)) = fst (segmentation_section a [])"
  "fst (wireless_section a (snd p)) = fst (wireless_section a [])"
  "fst (hygiene_section a (snd p)) = fst (hygiene_section a [])"
  using segmentation_section_acc [of a "snd p"] wireless_section_acc [of a "snd p"]
    hygiene_section_acc [of a "snd p"]
  by simp_all

lemma deductions_score:
  "deductions (score_assessment a) =
     [(''perimeter'', fst (perimeter_section a [])),
      (''segmentation'', fst (segmentation_section a [])),
      (''segmentation_scaled'',
         round_half_even (float_mul (fst (segmentation_section a [])) (multiplier_of a))),
      (''wireless'', fst (wireless_section a [])),
      (''hygiene'', fst (hygiene_section a [])),
      (''multiplied_total'',
         round_half_even (float_mul (fst (segmentation_section a [])) (multiplier_of a))
           + fst (wireless_section a []) + fst (hygiene_section a [])),
      (''total'',
         fst (perimeter_section a [])
           + (round_half_even (float_mul (fst (segmentation_section a [])) (multiplier_of a))
                + fst (wireless_section a []) + fst (hygiene_section a [])))]"
  by (simp add: score_assessment_def Let_def case_prod_beta section_fst)

lemma failed_controls_score:
  "failed_controls (score_assessment a) =
     dedup_controls
       (snd (perimeter_section a []) @ snd (segmentation_section a []) @
        snd (wireless_section a []) @ snd (hygiene_section a [])) {} []"
proof -
  let ?p = "snd (perimeter_section a [])"
  let ?s = "snd (segmentation_section a [])"
  let ?w = "snd (wireless_section a [])"
  let ?h = "snd (hygiene_section a [])"
  have s: "snd (segmentation_section a ?p) = ?p @ ?s"
    using segmentation_section_acc [of a ?p] by simp
  have w: "snd (wireless_section a (?p @ ?s)) = ?p @ ?s @ ?w"
    using wireless_section_acc [of a "?p @ ?s"] by simp
  have h: "snd (hygiene_section a (?p @ ?s @ ?w)) = ?p @ ?s @ ?w @ ?h"
    using hygiene_section_acc [of a "?p @ ?s @ ?w"] by simp
  show ?thesis
    by (simp add: score_assessment_def Let_def case_prod_beta s w h)
qed

subsection \<open>Gates and the cap\<close>

lemma determine_cap_fold:
  "determine_cap c gs = fold min (map cap (filter failed gs)) c"
  by (induction gs arbitrary: c) (simp_all add: min.commute)

lemma determine_cap_Min:
  "determine_cap c gs = Min (set (c # map cap (filter failed gs)))"
  by (simp only: determine_cap_fold Min.set_eq_fold)

lemma GATE_CAPS_values:
  "GATE_CAPS ''G1'' = Some 40" "GATE_CAPS ''G2'' = Some 50" "GATE_CAPS ''G3'' = Some 55"
  "GATE_CAPS ''G4'' = Some 65" "GATE_CAPS ''G5'' = Some 70"
  by (simp_all add: GATE_CAPS_def)

lemma evaluate_gates_shape:
  "\<exists>r1 r2 r3 r4 r5. evaluate_gates a =
     [\<lparr>gate_id = ''G1'', failed = (r1 \<noteq> []), cap = 40, reasons = r1\<rparr>,
      \<lparr>gate_id = ''G2'', failed = (r2 \<noteq> []), cap = 50, reasons = r2\<rparr>,
      \<lparr>gate_id = ''G3'', failed = (r3 \<noteq> []), cap = 55, reasons = r3\<rparr>,
      \<lparr>gate_id = ''G4'', failed = (r4 \<noteq> []), cap = 65, reasons = r4\<rparr>,
      \<lparr>gate_id = ''G5'', failed = (r5 \<noteq> []), cap = 70, reasons = r5\<rparr>]"
  unfolding evaluate_gates_def Let_def GATE_CAPS_values option.sel length_greater_0_conv
  by blast

lemma failed_caps_le_100:
  "x \<in> set (map cap (filter failed (evaluate_gates a))) \<Longrightarrow> 40 \<le> x \<and> x \<le> 100"
proof -
  assume x: "x \<in> set (map cap (filter failed (evaluate_gates a)))"
  obtain r1 r2 r3 r4 r5 where "evaluate_gates a =
     [\<lparr>gate_id = ''G1'', failed = (r1 \<noteq> []), cap = 40, reasons = r1\<rparr>,
      \<lparr>gate_id = ''G2'', failed = (r2 \<noteq> []), cap = 50, reasons = r2\<rparr>,
      \<lparr>gate_id = ''G3'', failed = (r3 \<noteq> []), cap = 55, reasons = r3\<rparr>,
      \<lparr>gate_id = ''G4'', failed = (r4 \<noteq> []), cap = 65, reasons = r4\<rparr>,
      \<lparr>gate_id = ''G5'', failed = (r5 \<noteq> []), cap = 70, reasons = r5\<rparr>]"
    using evaluate_gates_shape by blast
  with x show ?thesis by (auto split: if_splits)
qed

lemma cap_applied_bounds:
  "40 \<le> cap_applied (score_assessment a) \<and> cap_applied (score_assessment a) \<le> 100"
proof -
  let ?caps = "map cap (filter failed (evaluate_gates a))"
  have eq: "cap_applied (score_assessment a) = Min (set (100 # ?caps))"
    by (simp only: cap_applied_score determine_cap_Min)
  have "Min (set (100 # ?caps)) \<in> set (100 # ?caps)"
    by (rule Min_in) simp_all
  then have "Min (set (100 # ?caps)) = 100 \<or> Min (set (100 # ?caps)) \<in> set ?caps"
    by simp
  then show ?thesis
  proof
    assume "Min (set (100 # ?caps)) = 100"
    with eq show ?thesis by simp
  next
    assume "Min (set (100 # ?caps)) \<in> set ?caps"
    then have "40 \<le> Min (set (100 # ?caps)) \<and> Min (set (100 # ?caps)) \<le> 100"
      by (rule failed_caps_le_100)
    with eq show ?thesis by simp
  qed
qed

text \<open>
  Claim C5. For every answer set, also one that triggers every deduction rule at once, the
  raw score and the final score lie between 0 and 100.
\<close>

theorem score_bounds:
  "0 \<le> raw_score (score_assessment a) \<and> raw_score (score_assessment a) \<le> 100 \<and>
   0 \<le> final_score (score_assessment a) \<and> final_score (score_assessment a) \<le> 100"
  using raw_score_bounds [of a] cap_applied_bounds [of a] final_score_score [of a]
  by linarith

text \<open>
  Claim C4. For every answer set the final score is at most the applied cap, the applied cap
  is at most 100, and the applied cap is the least cap among the gates whose failed flag is
  set, or 100 when no gate failed.
\<close>

theorem cap_dominance:
  "final_score (score_assessment a) \<le> cap_applied (score_assessment a) \<and>
   cap_applied (score_assessment a) \<le> 100 \<and>
   cap_applied (score_assessment a) =
     (let failed_caps = map cap (filter failed (gates (score_assessment a)))
      in if failed_caps = [] then 100 else Min (set failed_caps))"
proof -
  let ?caps = "map cap (filter failed (evaluate_gates a))"
  have eq: "cap_applied (score_assessment a) = Min (set (100 # ?caps))"
    by (simp only: cap_applied_score determine_cap_Min)
  have min_eq: "Min (set (100 # ?caps)) = (if ?caps = [] then 100 else Min (set ?caps))"
  proof (cases "?caps = []")
    case True
    then show ?thesis by simp
  next
    case False
    then have ne: "set ?caps \<noteq> {}" by (simp only: set_empty not_False_eq_True)
    have "Min (set ?caps) \<in> set ?caps"
      using ne by (intro Min_in) simp_all
    then have "Min (set ?caps) \<le> 100"
      using failed_caps_le_100 by blast
    moreover have "Min (set (100 # ?caps)) = min 100 (Min (set ?caps))"
      using ne by (simp only: list.set Min_insert [OF finite_set ne])
    ultimately show ?thesis using False by simp
  qed
  show ?thesis
    using eq min_eq cap_applied_bounds [of a] final_score_score [of a]
    by (simp only: gates_score Let_def) simp
qed

text \<open>
  Claim C9. For every answer set the engine returns five gate results, and each has its
  failed flag set exactly when its list of reasons is not empty.
\<close>

theorem gate_failed_iff_reasons:
  "length (gates (score_assessment a)) = 5 \<and>
   list_all (\<lambda>g. failed g = (reasons g \<noteq> [])) (gates (score_assessment a))"
proof -
  obtain r1 r2 r3 r4 r5 where "evaluate_gates a =
     [\<lparr>gate_id = ''G1'', failed = (r1 \<noteq> []), cap = 40, reasons = r1\<rparr>,
      \<lparr>gate_id = ''G2'', failed = (r2 \<noteq> []), cap = 50, reasons = r2\<rparr>,
      \<lparr>gate_id = ''G3'', failed = (r3 \<noteq> []), cap = 55, reasons = r3\<rparr>,
      \<lparr>gate_id = ''G4'', failed = (r4 \<noteq> []), cap = 65, reasons = r4\<rparr>,
      \<lparr>gate_id = ''G5'', failed = (r5 \<noteq> []), cap = 70, reasons = r5\<rparr>]"
    using evaluate_gates_shape by blast
  then show ?thesis by (simp add: gates_score)
qed


subsection \<open>The all-failing answer set\<close>

lemma scenario_A_multiplier: "multiplier_of scenario_A = 5 / 4"
  by (simp add: multiplier_of_def device_bucket_of_def dict_get_default_def scenario_A_def
      DEVICE_MULTIPLIER_def binary64_literals)

lemma scenario_A_notes: "missing_notes scenario_A = [] \<and> device_notes scenario_A = []"
  by (simp add: missing_notes_def missing_required_scored_answers_def REQUIRED_SCORED_QIDS_def
      device_notes_def device_bucket_of_def dict_get_default_def dict_get_def scenario_A_def
      DEVICE_MULTIPLIER_def dom_def)

lemma scenario_A_perimeter:
  "perimeter_section scenario_A fc =
     (60, fc @ [''CTRL_PERIMETER_WAN_ADMIN_EXPOSURE'', ''CTRL_PERIMETER_PORT_FORWARDING'',
                ''CTRL_IDENTITY_ADMIN_MFA''])"
  by (simp add: perimeter_section_def dict_get_def scenario_A_def is_not_sure_def)

lemma scenario_A_segmentation:
  "segmentation_section scenario_A fc =
     (35, fc @ [''CTRL_SEGMENTATION_FLAT_NETWORK'', ''CTRL_SEGMENTATION_GUEST_NOT_ISOLATED'',
                ''CTRL_SEGMENTATION_IOT_WITH_CRITICAL''])"
  by (simp add: segmentation_section_def dict_get_def scenario_A_def is_not_sure_def)

lemma scenario_A_wireless:
  "wireless_section scenario_A fc =
     (23, fc @ [''CTRL_WIRELESS_OPEN_OR_UNKNOWN'', ''CTRL_WIRELESS_GUEST_CLIENT_ISOLATION''])"
  by (simp add: wireless_section_def dict_get_def scenario_A_def is_not_sure_def)

lemma scenario_A_hygiene:
  "hygiene_section scenario_A fc =
     (44, fc @ [''CTRL_HYGIENE_UNUSED_PORTS'', ''CTRL_OPERATIONS_NO_BACKUPS'',
                ''CTRL_OPERATIONS_NO_LOGGING'', ''CTRL_OPERATIONS_FIRMWARE_RARE''])"
  by (simp add: hygiene_section_def dict_get_def scenario_A_def is_not_sure_def)

lemma scenario_A_gates:
  "evaluate_gates scenario_A =
     [\<lparr>gate_id = ''G1'', failed = True, cap = 40,
        reasons = [''Admin interface reachable from internet (or unknown).'',
                   ''Remote access uses port forwarding/exposed services.'']\<rparr>,
      \<lparr>gate_id = ''G2'', failed = True, cap = 50,
        reasons = [''Guest devices can access internal systems (or unknown).'']\<rparr>,
      \<lparr>gate_id = ''G3'', failed = True, cap = 55,
        reasons = [''Network is flat / not segmented (or unknown).'']\<rparr>,
      \<lparr>gate_id = ''G4'', failed = True, cap = 65,
        reasons = [''No configuration backups (or unknown).'']\<rparr>,
      \<lparr>gate_id = ''G5'', failed = True, cap = 70,
        reasons = [''No network/firewall logging (or unknown).'']\<rparr>]"
  by (simp add: evaluate_gates_def dict_get_def scenario_A_def is_not_sure_def GATE_CAPS_values)

lemma scenario_A_score:
  "score_assessment scenario_A =
     \<lparr>raw_score = 0, cap_applied = 40, final_score = 0, grade = ''F'',
      device_multiplier = 5 / 4,
      gates = evaluate_gates scenario_A,
      deductions =
        [(''perimeter'', 60), (''segmentation'', 35), (''segmentation_scaled'', 44),
         (''wireless'', 23), (''hygiene'', 44), (''multiplied_total'', 111), (''total'', 171)],
      failed_controls =
        [''CTRL_PERIMETER_WAN_ADMIN_EXPOSURE'', ''CTRL_PERIMETER_PORT_FORWARDING'',
         ''CTRL_IDENTITY_ADMIN_MFA'', ''CTRL_SEGMENTATION_FLAT_NETWORK'',
         ''CTRL_SEGMENTATION_GUEST_NOT_ISOLATED'', ''CTRL_SEGMENTATION_IOT_WITH_CRITICAL'',
         ''CTRL_WIRELESS_OPEN_OR_UNKNOWN'', ''CTRL_WIRELESS_GUEST_CLIENT_ISOLATION'',
         ''CTRL_HYGIENE_UNUSED_PORTS'', ''CTRL_OPERATIONS_NO_BACKUPS'',
         ''CTRL_OPERATIONS_NO_LOGGING'', ''CTRL_OPERATIONS_FIRMWARE_RARE''],
      notes = []\<rparr>"
  unfolding score_assessment_def Let_def scenario_A_perimeter scenario_A_segmentation
    scenario_A_wireless scenario_A_hygiene scenario_A_multiplier scenario_A_notes [THEN conjunct1]
    scenario_A_notes [THEN conjunct2] prod.case scaled_by_1_25
  by (simp add: scenario_A_gates grade_from_score_def)

lemma scenario_A_controls_distinct: "distinct (failed_controls (score_assessment scenario_A))"
  by (simp add: scenario_A_score)

text \<open>
  Claim C2, as stated, fails in its last part: on the all-failing answer set the engine
  returns twelve distinct failed-control identifiers, not thirteen. The flat-network and
  partial-segmentation rules exclude each other, as do the open and PSK-only Wi-Fi rules, so
  at most twelve of the fourteen identifiers can occur together.
\<close>

theorem scenario_A_not_thirteen_controls:
  "card (set (failed_controls (score_assessment scenario_A))) \<noteq> 13"
  by (simp add: distinct_card [OF scenario_A_controls_distinct]) (simp add: scenario_A_score)

text \<open>
  Claim C2, amended. On the all-failing answer set the engine returns perimeter deduction 60,
  raw segmentation deduction 35, multiplier 1.25, scaled segmentation deduction 44, wireless
  23, hygiene 44, multiplied total 111, total deductions 171, raw score 0, applied cap 40,
  final score 0 and grade F; all five gates fail; and there are exactly 12 distinct
  failed-control identifiers, the guest-isolation one, which carries no deduction, among them.
\<close>

theorem scenario_A_breakdown:
  "map_of (deductions (score_assessment scenario_A)) ''perimeter'' = Some 60 \<and>
   map_of (deductions (score_assessment scenario_A)) ''segmentation'' = Some 35 \<and>
   device_multiplier (score_assessment scenario_A) = 5 / 4 \<and>
   map_of (deductions (score_assessment scenario_A)) ''segmentation_scaled'' = Some 44 \<and>
   map_of (deductions (score_assessment scenario_A)) ''wireless'' = Some 23 \<and>
   map_of (deductions (score_assessment scenario_A)) ''hygiene'' = Some 44 \<and>
   map_of (deductions (score_assessment scenario_A)) ''multiplied_total'' = Some 111 \<and>
   map_of (deductions (score_assessment scenario_A)) ''total'' = Some 171 \<and>
   raw_score (score_assessment scenario_A) = 0 \<and>
   cap_applied (score_assessment scenario_A) = 40 \<and>
   final_score (score_assessment scenario_A) = 0 \<and>
   grade (score_assessment scenario_A) = ''F'' \<and>
   map failed (gates (score_assessment scenario_A)) = [True, True, True, True, True] \<and>
   distinct (failed_controls (score_assessment scenario_A)) \<and>
   length (failed_controls (score_assessment scenario_A)) = 12 \<and>
   ''CTRL_SEGMENTATION_GUEST_NOT_ISOLATED'' \<in> set (failed_controls (score_assessment scenario_A))"
  by (simp add: scenario_A_score scenario_A_gates)

subsection \<open>Answers that trigger the same rules\<close>


lemma perimeter_section_cong:
  assumes "(dict_get a ''C1_WAN_ADMIN_EXPOSURE'' = Some ''YES'' \<or> is_not_sure (dict_get a ''C1_WAN_ADMIN_EXPOSURE''))
       = (dict_get b ''C1_WAN_ADMIN_EXPOSURE'' = Some ''YES'' \<or> is_not_sure (dict_get b ''C1_WAN_ADMIN_EXPOSURE''))"
    and "(dict_get a ''C2_REMOTE_ACCESS_METHOD'' = Some ''PORT_FORWARDING'')
       = (dict_get b ''C2_REMOTE_ACCESS_METHOD'' = Some ''PORT_FORWARDING'')"
    and "(dict_get a ''C3_ADMIN_MFA'' = Some ''NO'' \<or> is_not_sure (dict_get a ''C3_ADMIN_MFA''))
       = (dict_get b ''C3_ADMIN_MFA'' = Some ''NO'' \<or> is_not_sure (dict_get b ''C3_ADMIN_MFA''))"
  shows "perimeter_section a fc = perimeter_section b fc"
  unfolding perimeter_section_def Let_def assms ..

lemma segmentation_section_cong:
  assumes "(dict_get a ''D2_VLAN_SEPARATION'' = Some ''FLAT'' \<or> is_not_sure (dict_get a ''D2_VLAN_SEPARATION''))
       = (dict_get b ''D2_VLAN_SEPARATION'' = Some ''FLAT'' \<or> is_not_sure (dict_get b ''D2_VLAN_SEPARATION''))"
    and "(dict_get a ''D2_VLAN_SEPARATION'' = Some ''PARTIAL'')
       = (dict_get b ''D2_VLAN_SEPARATION'' = Some ''PARTIAL'')"
    and "(dict_get a ''D1_GUEST_INTERNAL_ACCESS'' = Some ''YES'' \<or> is_not_sure (dict_get a ''D1_GUEST_INTERNAL_ACCESS''))
       = (dict_get b ''D1_GUEST_INTERNAL_ACCESS'' = Some ''YES'' \<or> is_not_sure (dict_get b ''D1_GUEST_INTERNAL_ACCESS''))"
    and "(dict_get a ''D3_IOT_WITH_FINANCE'' = Some ''YES'')
       = (dict_get b ''D3_IOT_WITH_FINANCE'' = Some ''YES'')"
  shows "segmentation_section a fc = segmentation_section b fc"
  unfolding segmentation_section_def Let_def assms ..

lemma wireless_section_cong:
  assumes "(dict_get a ''E1_CORP_WIFI_SECURITY'' = Some ''OPEN_OR_UNKNOWN'' \<or> is_not_sure (dict_get a ''E1_CORP_WIFI_SECURITY''))
       = (dict_get b ''E1_CORP_WIFI_SECURITY'' = Some ''OPEN_OR_UNKNOWN'' \<or> is_not_sure (dict_get b ''E1_CORP_WIFI_SECURITY''))"
    and "(dict_get a ''E1_CORP_WIFI_SECURITY'' = Some ''PSK'')
       = (dict_get b ''E1_CORP_WIFI_SECURITY'' = Some ''PSK'')"
    and "(dict_get a ''E2_GUEST_CLIENT_ISOLATION'' = Some ''NO'' \<or> is_not_sure (dict_get a ''E2_GUEST_CLIENT_ISOLATION''))
       = (dict_get b ''E2_GUEST_CLIENT_ISOLATION'' = Some ''NO'' \<or> is_not_sure (dict_get b ''E2_GUEST_CLIENT_ISOLATION''))"
  shows "wireless_section a fc = wireless_section b fc"
  unfolding wireless_section_def Let_def assms ..

lemma hygiene_section_cong:
  assumes "(dict_get a ''F1_UNUSED_PORTS_RESTRICTED'' = Some ''NO'' \<or> is_not_sure (dict_get a ''F1_UNUSED_PORTS_RESTRICTED''))
       = (dict_get b ''F1_UNUSED_PORTS_RESTRICTED'' = Some ''NO'' \<or> is_not_sure (dict_get b ''F1_UNUSED_PORTS_RESTRICTED''))"
    and "(dict_get a ''F2_CONFIG_BACKUPS'' = Some ''NONE'' \<or> is_not_sure (dict_get a ''F2_CONFIG_BACKUPS''))
       = (dict_get b ''F2_CONFIG_BACKUPS'' = Some ''NONE'' \<or> is_not_sure (dict_get b ''F2_CONFIG_BACKUPS''))"
    and "(dict_get a ''F3_LOGGING_EXISTS'' = Some ''NO'' \<or> is_not_sure (dict_get a ''F3_LOGGING_EXISTS''))
       = (dict_get b ''F3_LOGGING_EXISTS'' = Some ''NO'' \<or> is_not_sure (dict_get b ''F3_LOGGING_EXISTS''))"
    and "(dict_get a ''F4_FIRMWARE_UPDATES'' = Some ''RARE'' \<or> is_not_sure (dict_get a ''F4_FIRMWARE_UPDATES''))
       = (dict_get b ''F4_FIRMWARE_UPDATES'' = Some ''RARE'' \<or> is_not_sure (dict_get b ''F4_FIRMWARE_UPDATES''))"
  shows "hygiene_section a fc = hygiene_section b fc"
  unfolding hygiene_section_def Let_def assms ..



lemma dict_get_upd:
  "dict_get (a(k := v)) k' =
     (if k' = k then (case v of None \<Rightarrow> None | Some x \<Rightarrow> x) else dict_get a k')"
  by (simp add: dict_get_def)





subsection \<open>The values of the raw deduction and of the multiplier\<close>

lemma segmentation_values:
  "fst (segmentation_section a []) \<in> {0, 10, 20, 25, 35}"
  by (simp add: segmentation_section_def Let_def)

lemma DEVICE_MULTIPLIER_values:
  "DEVICE_MULTIPLIER v = None \<or>
   DEVICE_MULTIPLIER v \<in> {Some 1, Some (2476979795053773 / 2251799813685248), Some (5 / 4), Some (3 / 2)}"
  by (simp add: DEVICE_MULTIPLIER_def binary64_literals)

lemma multiplier_values:
  "multiplier_of a \<in> {1, 2476979795053773 / 2251799813685248, 5 / 4, 3 / 2}"
  using DEVICE_MULTIPLIER_values [of "device_bucket_of a"]
  by (auto simp: multiplier_of_def binary64_literals)

lemma scaled_injective:
  assumes "s \<in> {10, 20, 25, 35}"
    and "m \<in> {1, 2476979795053773 / 2251799813685248, 5 / 4, 3 / 2}"
    and "m' \<in> {1, 2476979795053773 / 2251799813685248, 5 / 4, 3 / 2}"
  shows "(round_half_even (float_mul s m) = round_half_even (float_mul s m')) = (m = m')"
  using assms by (elim insertE emptyE; hypsubst; simp add: scaled_table)

lemma sections_ignore_device_count:
  "perimeter_section (a(''A1_DEVICE_COUNT'' := x)) fc = perimeter_section a fc"
  "segmentation_section (a(''A1_DEVICE_COUNT'' := x)) fc = segmentation_section a fc"
  "wireless_section (a(''A1_DEVICE_COUNT'' := x)) fc = wireless_section a fc"
  "hygiene_section (a(''A1_DEVICE_COUNT'' := x)) fc = hygiene_section a fc"
     apply (rule perimeter_section_cong; simp add: dict_get_upd del: fun_upd_apply)
    apply (rule segmentation_section_cong; simp add: dict_get_upd del: fun_upd_apply)
   apply (rule wireless_section_cong; simp add: dict_get_upd del: fun_upd_apply)
  apply (rule hygiene_section_cong; simp add: dict_get_upd del: fun_upd_apply)
  done


lemma device_note_not_missing_note:
  "''Unknown device bucket; default multiplier applied (1.1x).'' \<notin> set (missing_notes a)"
  by (simp add: missing_notes_def Let_def)

subsection \<open>Unknown answers\<close>




subsection \<open>The default multiplier\<close>

text \<open>
  Claim C3, as stated, fails for an absent device count: \<^verbatim>\<open>answers.get\<close> then supplies the
  bucket \<^verbatim>\<open>R_50_200\<close>, which is in the table, and no note is appended.
\<close>

theorem absent_device_count_no_note:
  "no_answers ''A1_DEVICE_COUNT'' = None \<and>
   ''Unknown device bucket; default multiplier applied (1.1x).''
     \<notin> set (notes (score_assessment no_answers))"
  by (simp add: notes_score device_note_not_missing_note device_notes_def device_bucket_of_def
      dict_get_default_def DEVICE_MULTIPLIER_def dom_def no_answers_def)

text \<open>
  Claim C3, amended. When the device-count question is absent or carries a value that is not
  in the bucket table, the engine uses the multiplier 1.1 and returns a result; the note about
  the default multiplier is appended exactly when the question is present.
\<close>

theorem default_multiplier:
  assumes "answers ''A1_DEVICE_COUNT'' = None \<or>
           (\<exists>v. answers ''A1_DEVICE_COUNT'' = Some v \<and> DEVICE_MULTIPLIER v = None)"
  shows "device_multiplier (score_assessment answers) = to_binary64 (11 / 10) \<and>
         (''Unknown device bucket; default multiplier applied (1.1x).''
            \<in> set (notes (score_assessment answers)))
         = (answers ''A1_DEVICE_COUNT'' \<noteq> None)"
proof -
  note m = device_note_not_missing_note [of answers]
  from assms show ?thesis
  proof
    assume "answers ''A1_DEVICE_COUNT'' = None"
    then show ?thesis
      using m
      by (simp add: device_multiplier_score notes_score multiplier_of_def device_notes_def
          device_bucket_of_def dict_get_default_def DEVICE_MULTIPLIER_def dom_def)
  next
    assume "\<exists>v. answers ''A1_DEVICE_COUNT'' = Some v \<and> DEVICE_MULTIPLIER v = None"
    then obtain v where "answers ''A1_DEVICE_COUNT'' = Some v" and "DEVICE_MULTIPLIER v = None"
      by blast
    then show ?thesis
      using m
      by (simp add: device_multiplier_score notes_score multiplier_of_def device_notes_def
          device_bucket_of_def dict_get_default_def dom_def)
  qed
qed

text \<open>The default multiplier and its note for an unrecognised bucket.\<close>

theorem default_multiplier_witness:
  "[''A1_DEVICE_COUNT'' \<mapsto> Some ''HUGE''] ''A1_DEVICE_COUNT'' = Some (Some ''HUGE'') \<and>
   DEVICE_MULTIPLIER (Some ''HUGE'') = None \<and>
   device_multiplier (score_assessment [''A1_DEVICE_COUNT'' \<mapsto> Some ''HUGE'']) = to_binary64 (11 / 10) \<and>
   ''Unknown device bucket; default multiplier applied (1.1x).''
     \<in> set (notes (score_assessment [''A1_DEVICE_COUNT'' \<mapsto> Some ''HUGE'']))"
proof -
  have h: "[''A1_DEVICE_COUNT'' \<mapsto> Some ''HUGE''] ''A1_DEVICE_COUNT'' = Some (Some ''HUGE'')"
    by simp
  have d: "DEVICE_MULTIPLIER (Some ''HUGE'') = None"
    by (simp add: DEVICE_MULTIPLIER_def)
  have "[''A1_DEVICE_COUNT'' \<mapsto> Some ''HUGE''] ''A1_DEVICE_COUNT'' = None \<or>
        (\<exists>v. [''A1_DEVICE_COUNT'' \<mapsto> Some ''HUGE''] ''A1_DEVICE_COUNT'' = Some v \<and>
             DEVICE_MULTIPLIER v = None)"
    using h d by blast
  from this default_multiplier [of "[''A1_DEVICE_COUNT'' \<mapsto> Some ''HUGE'']"] h d
  show ?thesis
    by simp
qed


subsection \<open>The scope of the multiplier\<close>

lemma scaled_zero:
  assumes "m \<in> {1, 2476979795053773 / 2251799813685248, 5 / 4, 3 / 2}"
  shows "round_half_even (float_mul 0 m) = 0"
  using assms by (elim insertE emptyE; hypsubst; simp add: scaled_table)

lemma scaled_differs:
  "(round_half_even (float_mul (fst (segmentation_section a [])) (multiplier_of b))
      \<noteq> round_half_even (float_mul (fst (segmentation_section a [])) (multiplier_of c)))
   = (fst (segmentation_section a []) \<noteq> 0 \<and> multiplier_of b \<noteq> multiplier_of c)"
proof (cases "fst (segmentation_section a []) = 0")
  case True
  then show ?thesis
    by (simp add: scaled_zero [OF multiplier_values])
next
  case False
  then have "fst (segmentation_section a []) \<in> {10, 20, 25, 35}"
    using segmentation_values [of a] by simp
  from scaled_injective [OF this multiplier_values multiplier_values, of b c] False
  show ?thesis by simp
qed

text \<open>
  Claim C6, as stated, fails where no segmentation rule fires: the raw segmentation
  deduction is 0, and changing the bucket from \<^verbatim>\<open>LT_50\<close> to \<^verbatim>\<open>R_500_1000\<close> changes the
  multiplier but neither the scaled segmentation deduction nor the multiplied total.
\<close>

theorem device_count_unchanged_when_segmented:
  "device_multiplier (score_assessment (scenario_segmented(''A1_DEVICE_COUNT'' \<mapsto> Some ''LT_50'')))
     \<noteq> device_multiplier (score_assessment (scenario_segmented(''A1_DEVICE_COUNT'' \<mapsto> Some ''R_500_1000''))) \<and>
   map_of (deductions (score_assessment (scenario_segmented(''A1_DEVICE_COUNT'' \<mapsto> Some ''LT_50''))))
       ''segmentation_scaled''
     = map_of (deductions (score_assessment (scenario_segmented(''A1_DEVICE_COUNT'' \<mapsto> Some ''R_500_1000''))))
       ''segmentation_scaled'' \<and>
   map_of (deductions (score_assessment (scenario_segmented(''A1_DEVICE_COUNT'' \<mapsto> Some ''LT_50''))))
       ''multiplied_total''
     = map_of (deductions (score_assessment (scenario_segmented(''A1_DEVICE_COUNT'' \<mapsto> Some ''R_500_1000''))))
       ''multiplied_total''"
proof -
  have seg: "fst (segmentation_section scenario_segmented []) = 0"
    by (simp add: segmentation_section_def dict_get_def is_not_sure_def scenario_segmented_def)
  have m1: "multiplier_of (scenario_segmented(''A1_DEVICE_COUNT'' \<mapsto> Some ''LT_50'')) = 1"
    by (simp add: multiplier_of_def device_bucket_of_def dict_get_default_def
        DEVICE_MULTIPLIER_def binary64_literals)
  have m2: "multiplier_of (scenario_segmented(''A1_DEVICE_COUNT'' \<mapsto> Some ''R_500_1000'')) = 3 / 2"
    by (simp add: multiplier_of_def device_bucket_of_def dict_get_default_def
        DEVICE_MULTIPLIER_def binary64_literals)
  show ?thesis
    by (simp add: deductions_score device_multiplier_score sections_ignore_device_count
        seg m1 m2 scaled_table)
qed

text \<open>
  Claim C6, amended. Changing only the device-count answer (to any value, or removing it)
  leaves the perimeter deduction unchanged; the scaled segmentation deduction and the
  multiplied total change exactly when the raw segmentation deduction is not 0 and the two
  answers select different multipliers.
\<close>

theorem multiplier_scope:
  "map_of (deductions (score_assessment (answers(''A1_DEVICE_COUNT'' := x)))) ''perimeter''
     = map_of (deductions (score_assessment (answers(''A1_DEVICE_COUNT'' := y)))) ''perimeter'' \<and>
   (map_of (deductions (score_assessment (answers(''A1_DEVICE_COUNT'' := x)))) ''segmentation_scaled''
      \<noteq> map_of (deductions (score_assessment (answers(''A1_DEVICE_COUNT'' := y)))) ''segmentation_scaled'')
     = (map_of (deductions (score_assessment (answers(''A1_DEVICE_COUNT'' := x)))) ''segmentation'' \<noteq> Some 0 \<and>
        device_multiplier (score_assessment (answers(''A1_DEVICE_COUNT'' := x)))
          \<noteq> device_multiplier (score_assessment (answers(''A1_DEVICE_COUNT'' := y)))) \<and>
   (map_of (deductions (score_assessment (answers(''A1_DEVICE_COUNT'' := x)))) ''multiplied_total''
      \<noteq> map_of (deductions (score_assessment (answers(''A1_DEVICE_COUNT'' := y)))) ''multiplied_total'')
     = (map_of (deductions (score_assessment (answers(''A1_DEVICE_COUNT'' := x)))) ''segmentation'' \<noteq> Some 0 \<and>
        device_multiplier (score_assessment (answers(''A1_DEVICE_COUNT'' := x)))
          \<noteq> device_multiplier (score_assessment (answers(''A1_DEVICE_COUNT'' := y))))"
  using scaled_differs [of answers "answers(''A1_DEVICE_COUNT'' := x)" "answers(''A1_DEVICE_COUNT'' := y)"]
  by (simp add: deductions_score device_multiplier_score sections_ignore_device_count)


section \<open>Properties of the remediation resolver\<close>

subsection \<open>The fix-block library\<close>

lemma library_keys:
  "map fst CONTROL_FIX_LIBRARY_items =
     [''CTRL_PERIMETER_WAN_ADMIN_EXPOSURE'', ''CTRL_PERIMETER_PORT_FORWARDING'',
      ''CTRL_IDENTITY_ADMIN_MFA'', ''CTRL_SEGMENTATION_GUEST_NOT_ISOLATED'',
      ''CTRL_SEGMENTATION_FLAT_NETWORK'', ''CTRL_SEGMENTATION_PARTIAL'',
      ''CTRL_SEGMENTATION_IOT_WITH_CRITICAL'', ''CTRL_WIRELESS_OPEN_OR_UNKNOWN'',
      ''CTRL_WIRELESS_PSK_ONLY'', ''CTRL_WIRELESS_GUEST_CLIENT_ISOLATION'',
      ''CTRL_HYGIENE_UNUSED_PORTS'', ''CTRL_OPERATIONS_NO_BACKUPS'',
      ''CTRL_OPERATIONS_NO_LOGGING'', ''CTRL_OPERATIONS_FIRMWARE_RARE'']"
  by (simp add: CONTROL_FIX_LIBRARY_items_def)

lemma library_control_ids:
  "map (\<lambda>kb. control_id (snd kb)) CONTROL_FIX_LIBRARY_items = map fst CONTROL_FIX_LIBRARY_items"
  by (simp add: CONTROL_FIX_LIBRARY_items_def)

lemma library_key_is_control_id:
  assumes "CONTROL_FIX_LIBRARY cid = Some b"
  shows "control_id b = cid"
proof -
  from assms have "(cid, b) \<in> set CONTROL_FIX_LIBRARY_items"
    by (simp add: CONTROL_FIX_LIBRARY_def map_of_SomeD)
  moreover have "\<forall>kb \<in> set CONTROL_FIX_LIBRARY_items. control_id (snd kb) = fst kb"
    using library_control_ids by (simp only: map_eq_conv)
  ultimately show ?thesis by fastforce
qed

lemma library_dom:
  "dom CONTROL_FIX_LIBRARY = set (map fst CONTROL_FIX_LIBRARY_items)"
  by (simp add: CONTROL_FIX_LIBRARY_def dom_map_of_conv_image_fst)


subsection \<open>First occurrences\<close>

lemma first_occurrences_filter:
  "first_occurrences (filter P xs) = filter P (first_occurrences xs)"
proof (induction xs rule: first_occurrences.induct)
  case 1
  show ?case by simp
next
  case (2 x xs)
  show ?case
  proof (cases "P x")
    case True
    then show ?thesis using "2.IH" by (simp add: conj_commute)
  next
    case False
    have "filter P xs = filter P (filter (\<lambda>y. y \<noteq> x) xs)"
      using False by (auto intro: filter_cong)
    then show ?thesis using False "2.IH" by simp
  qed
qed

lemma set_first_occurrences: "set (first_occurrences xs) = set xs"
  by (induction xs rule: first_occurrences.induct) auto

lemma distinct_first_occurrences: "distinct (first_occurrences xs)"
  by (induction xs rule: first_occurrences.induct) (auto simp: set_first_occurrences)

lemma first_occurrences_distinct: "distinct xs \<Longrightarrow> first_occurrences xs = xs"
proof (induction xs)
  case Nil
  show ?case by simp
next
  case (Cons x xs)
  then have "filter (\<lambda>y. y \<noteq> x) xs = xs"
    by (auto intro: filter_True)
  with Cons show ?case by simp
qed

subsection \<open>The loops of \<open>generate_fix_blocks\<close>\<close>

lemma build_blocks_first_occurrences:
  "build_blocks xs seen blocks =
     blocks @ List.map_filter CONTROL_FIX_LIBRARY
                (first_occurrences (filter (\<lambda>cid. cid \<notin> seen) xs))"
proof (induction xs arbitrary: seen blocks)
  case Nil
  show ?case by simp
next
  case (Cons cid rest)
  show ?case
  proof (cases "cid \<in> seen")
    case True
    then show ?thesis using Cons.IH [of seen blocks] by simp
  next
    case False
    show ?thesis
      using False Cons.IH [of "insert cid seen"]
      by (cases "CONTROL_FIX_LIBRARY cid") (simp_all add: conj_commute)
  qed
qed

lemma dedup_controls_first_occurrences:
  "dedup_controls xs seen out = out @ first_occurrences (filter (\<lambda>cid. cid \<notin> seen) xs)"
proof (induction xs arbitrary: seen out)
  case Nil
  show ?case by simp
next
  case (Cons cid rest)
  show ?case
  proof (cases "cid \<in> seen")
    case True
    then show ?thesis using Cons.IH [of seen out] by simp
  next
    case False
    show ?thesis
      using False Cons.IH [of "insert cid seen"] by (simp add: conj_commute)
  qed
qed

lemma split_fixes_filter:
  "split_fixes bs cs rs =
     (cs @ filter (\<lambda>b. severity b \<in> {''critical'', ''high''}) bs,
      rs @ filter (\<lambda>b. severity b \<notin> {''critical'', ''high''}) bs)"
  by (induction bs arbitrary: cs rs) simp_all

lemma generate_fix_blocks_eq:
  "generate_fix_blocks controls gate_list =
     \<lparr>gate_summaries = summarise_gates gate_list [],
      critical_fixes =
        filter (\<lambda>b. severity b \<in> {''critical'', ''high''})
          (sort_key block_sort_key
             (List.map_filter CONTROL_FIX_LIBRARY (first_occurrences controls))),
      recommended_fixes =
        filter (\<lambda>b. severity b \<notin> {''critical'', ''high''})
          (sort_key block_sort_key
             (List.map_filter CONTROL_FIX_LIBRARY (first_occurrences controls)))\<rparr>"
  by (simp add: generate_fix_blocks_def Let_def split_fixes_filter
      build_blocks_first_occurrences)

lemma map_filter_known:
  "List.map_filter f (filter (\<lambda>x. x \<in> dom f) xs) = List.map_filter f xs"
  by (induction xs) (auto split: option.splits)


subsection \<open>Sorting and splitting\<close>

text \<open>The order on the sort keys: severity rank, then gate rank, then control identifier.\<close>

lemma sort_key_order:
  "((s, g, c) \<le> (s', g', c')) =
     ((s :: nat) < s' \<or> s = s' \<and> ((g :: nat) < g' \<or> g = g' \<and> (c :: string) \<le> c'))"
  by (auto simp: less_eq_prod_def less_prod_def)

lemma severity_rank:
  "(severity b \<in> {''critical'', ''high''}) = (fst (block_sort_key b) \<le> 1)"
  by (simp add: block_sort_key_def Let_def)


lemma control_ids_of_blocks:
  "map control_id (List.map_filter CONTROL_FIX_LIBRARY xs) =
     filter (\<lambda>cid. cid \<in> dom CONTROL_FIX_LIBRARY) xs"
  by (induction xs) (auto simp: library_key_is_control_id split: option.splits)

lemma split_set:
  "set (filter (\<lambda>b. severity b \<in> {''critical'', ''high''}) bs @
        filter (\<lambda>b. severity b \<notin> {''critical'', ''high''}) bs) = set bs"
  by auto

lemma split_length:
  "length (filter (\<lambda>b. severity b \<in> {''critical'', ''high''}) bs @
           filter (\<lambda>b. severity b \<notin> {''critical'', ''high''}) bs) = length bs"
  by (induction bs) simp_all





lemma fix_block_ids:
  "set (map control_id
     (critical_fixes (generate_fix_blocks controls gate_list) @
      recommended_fixes (generate_fix_blocks controls gate_list)))
   = set controls \<inter> dom CONTROL_FIX_LIBRARY"
proof -
  have "set (map control_id
     (critical_fixes (generate_fix_blocks controls gate_list) @
      recommended_fixes (generate_fix_blocks controls gate_list)))
    = control_id ` set (List.map_filter CONTROL_FIX_LIBRARY (first_occurrences controls))"
    unfolding generate_fix_blocks_eq
    by (simp only: RemediationOutput.simps set_map split_set set_sort)
  also have "\<dots> = set (map control_id
      (List.map_filter CONTROL_FIX_LIBRARY (first_occurrences controls)))"
    by simp
  also have "\<dots> = set controls \<inter> dom CONTROL_FIX_LIBRARY"
    by (simp only: control_ids_of_blocks set_filter set_first_occurrences) blast
  finally show ?thesis .
qed

text \<open>
  Claim C8. \<open>generate_fix_blocks\<close> drops every control identifier that is not a key of the
  fix-block library, without failing: its output is its output on the sublist of the
  recognised identifiers, and the blocks returned are those of the recognised identifiers.
\<close>

theorem unrecognised_controls_dropped:
  "generate_fix_blocks controls gate_list =
     generate_fix_blocks (filter (\<lambda>cid. cid \<in> dom CONTROL_FIX_LIBRARY) controls) gate_list \<and>
   set (map control_id
     (critical_fixes (generate_fix_blocks controls gate_list) @
      recommended_fixes (generate_fix_blocks controls gate_list)))
   = set controls \<inter> dom CONTROL_FIX_LIBRARY"
proof
  show "generate_fix_blocks controls gate_list =
     generate_fix_blocks (filter (\<lambda>cid. cid \<in> dom CONTROL_FIX_LIBRARY) controls) gate_list"
    by (simp add: generate_fix_blocks_eq first_occurrences_filter map_filter_known)
  show "set (map control_id
     (critical_fixes (generate_fix_blocks controls gate_list) @
      recommended_fixes (generate_fix_blocks controls gate_list)))
    = set controls \<inter> dom CONTROL_FIX_LIBRARY"
    by (rule fix_block_ids)
qed

section \<open>The engine's failed controls in the resolver\<close>

lemma library_dom_set:
  "dom CONTROL_FIX_LIBRARY =
     {''CTRL_PERIMETER_WAN_ADMIN_EXPOSURE'', ''CTRL_PERIMETER_PORT_FORWARDING'',
      ''CTRL_IDENTITY_ADMIN_MFA'', ''CTRL_SEGMENTATION_GUEST_NOT_ISOLATED'',
      ''CTRL_SEGMENTATION_FLAT_NETWORK'', ''CTRL_SEGMENTATION_PARTIAL'',
      ''CTRL_SEGMENTATION_IOT_WITH_CRITICAL'', ''CTRL_WIRELESS_OPEN_OR_UNKNOWN'',
      ''CTRL_WIRELESS_PSK_ONLY'', ''CTRL_WIRELESS_GUEST_CLIENT_ISOLATION'',
      ''CTRL_HYGIENE_UNUSED_PORTS'', ''CTRL_OPERATIONS_NO_BACKUPS'',
      ''CTRL_OPERATIONS_NO_LOGGING'', ''CTRL_OPERATIONS_FIRMWARE_RARE''}"
  by (simp only: library_dom library_keys list.set)

lemma perimeter_controls:
  "set (snd (perimeter_section a [])) \<subseteq> dom CONTROL_FIX_LIBRARY"
  by (simp add: perimeter_section_def Let_def library_dom_set)

lemma segmentation_controls:
  "set (snd (segmentation_section a [])) \<subseteq> dom CONTROL_FIX_LIBRARY"
  by (simp add: segmentation_section_def Let_def library_dom_set)

lemma wireless_controls:
  "set (snd (wireless_section a [])) \<subseteq> dom CONTROL_FIX_LIBRARY"
  by (simp add: wireless_section_def Let_def library_dom_set)

lemma hygiene_controls:
  "set (snd (hygiene_section a [])) \<subseteq> dom CONTROL_FIX_LIBRARY"
  by (simp add: hygiene_section_def Let_def library_dom_set)

lemma failed_controls_set:
  "set (failed_controls (score_assessment a)) =
     set (snd (perimeter_section a [])) \<union> set (snd (segmentation_section a [])) \<union>
     set (snd (wireless_section a [])) \<union> set (snd (hygiene_section a []))"
  by (simp add: failed_controls_score dedup_controls_first_occurrences
      set_first_occurrences Un_assoc)

lemma failed_controls_distinct: "distinct (failed_controls (score_assessment a))"
  by (simp add: failed_controls_score dedup_controls_first_occurrences
      distinct_first_occurrences)

lemma failed_controls_known:
  "set (failed_controls (score_assessment a)) \<subseteq> dom CONTROL_FIX_LIBRARY"
  unfolding failed_controls_set
  by (intro Un_least perimeter_controls segmentation_controls wireless_controls
      hygiene_controls)

lemma fix_block_count:
  assumes "distinct controls" and "set controls \<subseteq> dom CONTROL_FIX_LIBRARY"
  shows "length (critical_fixes (generate_fix_blocks controls gate_list) @
                 recommended_fixes (generate_fix_blocks controls gate_list))
         = length controls"
proof -
  have "length (critical_fixes (generate_fix_blocks controls gate_list) @
                recommended_fixes (generate_fix_blocks controls gate_list))
      = length (List.map_filter CONTROL_FIX_LIBRARY (first_occurrences controls))"
    unfolding generate_fix_blocks_eq
    by (simp only: RemediationOutput.simps split_length length_sort)
  also have "\<dots> = length (map control_id
      (List.map_filter CONTROL_FIX_LIBRARY (first_occurrences controls)))"
    by simp
  also have "\<dots> = length (filter (\<lambda>cid. cid \<in> dom CONTROL_FIX_LIBRARY) controls)"
    by (simp only: control_ids_of_blocks first_occurrences_distinct [OF assms(1)])
  also have "\<dots> = length controls"
    using assms(2) by (simp add: subset_iff)
  finally show ?thesis .
qed

text \<open>
  Claim C10. For every answer set, every control identifier in the failed controls that the
  engine returns is a key of the fix-block library; so when the resolver is given the
  engine's output no identifier is dropped: the control identifiers of the fix blocks
  returned are exactly the failed controls, one block for each.
\<close>

theorem engine_controls_have_fix_blocks:
  "set (failed_controls (score_assessment answers)) \<subseteq> dom CONTROL_FIX_LIBRARY \<and>
   set (map control_id
     (critical_fixes (generate_fix_blocks (failed_controls (score_assessment answers))
                        (gates (score_assessment answers))) @
      recommended_fixes (generate_fix_blocks (failed_controls (score_assessment answers))
                           (gates (score_assessment answers)))))
   = set (failed_controls (score_assessment answers)) \<and>
   length
     (critical_fixes (generate_fix_blocks (failed_controls (score_assessment answers))
                        (gates (score_assessment answers))) @
      recommended_fixes (generate_fix_blocks (failed_controls (score_assessment answers))
                           (gates (score_assessment answers))))
   = length (failed_controls (score_assessment answers))"
proof (intro conjI)
  show known: "set (failed_controls (score_assessment answers)) \<subseteq> dom CONTROL_FIX_LIBRARY"
    by (rule failed_controls_known)
  show "set (map control_id
     (critical_fixes (generate_fix_blocks (failed_controls (score_assessment answers))
                        (gates (score_assessment answers))) @
      recommended_fixes (generate_fix_blocks (failed_controls (score_assessment answers))
                           (gates (score_assessment answers)))))
   = set (failed_controls (score_assessment answers))"
    using known by (simp only: fix_block_ids Int_absorb2)
  show "length
     (critical_fixes (generate_fix_blocks (failed_controls (score_assessment answers))
                        (gates (score_assessment answers))) @
      recommended_fixes (generate_fix_blocks (failed_controls (score_assessment answers))
                           (gates (score_assessment answers))))
   = length (failed_controls (score_assessment answers))"
    by (rule fix_block_count [OF failed_controls_distinct known])
qed


end
